theory Spec2Isabelle
  imports Complex_Main
begin

section \<open>JavaScript values used by the scan core\<close>

text \<open>
  Strings are byte strings. \<open>String.prototype.toLowerCase\<close> is modelled on the ASCII
  letters, which is where every keyword of the source lives; \<open>String.prototype.includes\<close>
  is substring search.
\<close>

definition toLowerCase_char :: "char \<Rightarrow> char" where
  "toLowerCase_char c =
     (let n = (of_char c :: nat) in if 65 \<le> n \<and> n \<le> 90 then char_of (n + 32) else c)"

definition toLowerCase :: "string \<Rightarrow> string" where
  "toLowerCase s = map toLowerCase_char s"

fun startsWith :: "string \<Rightarrow> string \<Rightarrow> bool" where
  "startsWith s [] = True"
| "startsWith [] (k # ks) = False"
| "startsWith (c # s) (k # ks) = (c = k \<and> startsWith s ks)"

fun includesStr :: "string \<Rightarrow> string \<Rightarrow> bool" where
  "includesStr [] k = (k = [])"
| "includesStr (c # s) k = (startsWith (c # s) k \<or> includesStr s k)"

text \<open>\<open>x || null\<close> and \<open>x || ''\<close> on an optional string: the empty string is falsy.\<close>

definition truthy :: "string option \<Rightarrow> bool" where
  "truthy x = (case x of None \<Rightarrow> False | Some s \<Rightarrow> s \<noteq> [])"

definition orNull :: "string option \<Rightarrow> string option" where
  "orNull x = (if truthy x then x else None)"

definition orEmpty :: "string option \<Rightarrow> string" where
  "orEmpty x = (case x of None \<Rightarrow> [] | Some s \<Rightarrow> s)"

definition orElse :: "string option \<Rightarrow> string option \<Rightarrow> string option" where
  "orElse x y = (if truthy x then x else y)"


section \<open>Output normalizer: \<open>runPowerpipeBenchmark\<close>, from the parsed engine output on\<close>

subsection \<open>Raw engine output\<close>

text \<open>
  The engine reports a tree of groups. A group carries controls and nested groups; an
  absent or non-array \<open>controls\<close> / \<open>groups\<close> field is iterated zero times by the source and
  is the empty list here. A control's \<open>summary\<close> counts and its \<open>results\<close> array are optional.
\<close>

record raw_summary =
  alarm :: "int option"
  error :: "int option"
  ok :: "int option"

record raw_result =
  reason :: "string option"
  resource :: "string option"

record raw_control =
  rc_control_id :: "string option"
  rc_title :: "string option"
  rc_description :: "string option"
  rc_summary :: "raw_summary option"
  rc_results :: "raw_result list option"
  rc_run_error :: "string option"

datatype item = Item (item_controls: "raw_control list") (item_groups: "item list")

subsection \<open>Normalized controls\<close>

datatype control_status = Pass | Fail | Error | Skip

record control =
  control_id :: string
  title :: string
  description :: string
  status :: control_status
  c_reason :: "string option"
  resources :: "raw_result list option"
  permission_error :: bool
  error_type :: "string option"

text \<open>\<open>control.summary?.alarm > 0\<close>: an absent summary or count compares false.\<close>

definition positive :: "int option \<Rightarrow> bool" where
  "positive n = (case n of None \<Rightarrow> False | Some k \<Rightarrow> 0 < k)"

definition summaryField :: "(raw_summary \<Rightarrow> int option) \<Rightarrow> raw_control \<Rightarrow> int option" where
  "summaryField sel rc = (case rc_summary rc of None \<Rightarrow> None | Some s \<Rightarrow> sel s)"

definition deriveStatus :: "raw_control \<Rightarrow> control_status" where
  "deriveStatus rc =
     (if positive (summaryField alarm rc) then Fail
      else if positive (summaryField error rc) then Error
      else if positive (summaryField ok rc) then Pass
      else Skip)"

text \<open>
  \<open>control.results?.[0]?.reason || control.run_error\<close>, then \<open>|| null\<close> for the emitted
  reason and \<open>|| ''\<close>, lower-cased, for the text that is classified.
\<close>

definition firstReason :: "raw_control \<Rightarrow> string option" where
  "firstReason rc =
     (case rc_results rc of
        None \<Rightarrow> None
      | Some [] \<Rightarrow> None
      | Some (r # _) \<Rightarrow> reason r)"

definition reasonOf :: "raw_control \<Rightarrow> string option" where
  "reasonOf rc = orNull (orElse (firstReason rc) (rc_run_error rc))"

definition errorText :: "raw_control \<Rightarrow> string" where
  "errorText rc = toLowerCase (orEmpty (orElse (firstReason rc) (rc_run_error rc)))"

definition permissionErrorKeywords :: "string list" where
  "permissionErrorKeywords =
     [''accessdenied'',
      ''access denied'',
      ''unauthorizedoperation'',
      ''unauthorized operation'',
      ''invaliduserid.notfound'',
      ''accessdeniedexception'',
      ''forbidden'',
      ''insufficient permissions'',
      ''permission denied'',
      ''user is not authorized'',
      ''not authorized to perform'',
      ''unauthorized: access is denied'']"

definition isPermissionError :: "string \<Rightarrow> bool" where
  "isPermissionError txt = list_ex (\<lambda>keyword. includesStr txt keyword) permissionErrorKeywords"

definition errorTypeOf :: "string \<Rightarrow> string option" where
  "errorTypeOf txt =
     (if isPermissionError txt then
        (if includesStr txt ''accessdenied'' \<or> includesStr txt ''access denied'' then Some ''AccessDenied''
         else if includesStr txt ''unauthorized'' then Some ''UnauthorizedOperation''
         else if includesStr txt ''forbidden'' then Some ''Forbidden''
         else Some ''PermissionError'')
      else None)"

definition transformControl :: "string \<Rightarrow> raw_control \<Rightarrow> control" where
  "transformControl controlId rc =
     \<lparr> control_id = controlId,
       title = orEmpty (rc_title rc),
       description = orEmpty (rc_description rc),
       status = deriveStatus rc,
       c_reason = reasonOf rc,
       resources = rc_results rc,
       permission_error = isPermissionError (errorText rc),
       error_type = errorTypeOf (errorText rc) \<rparr>"

subsection \<open>Deduplicating traversal\<close>

text \<open>
  \<open>controlsMap\<close> is a JavaScript \<open>Map\<close>: \<open>set\<close> on a present key replaces the value where it
  stands, \<open>set\<close> on a new key appends, and \<open>values()\<close> iterates in insertion order.
\<close>

type_synonym controlsMap = "(string \<times> control) list"

fun mapHas :: "controlsMap \<Rightarrow> string \<Rightarrow> bool" where
  "mapHas [] k = False"
| "mapHas ((k', v) # m) k = (k' = k \<or> mapHas m k)"

fun mapSet :: "string \<Rightarrow> control \<Rightarrow> controlsMap \<Rightarrow> controlsMap" where
  "mapSet k v [] = [(k, v)]"
| "mapSet k v ((k', v') # m) = (if k' = k then (k, v) # m else (k', v') # mapSet k v m)"

fun mapGet :: "controlsMap \<Rightarrow> string \<Rightarrow> control option" where
  "mapGet [] k = None"
| "mapGet ((k', v) # m) k = (if k' = k then Some v else mapGet m k)"

definition mapValues :: "controlsMap \<Rightarrow> control list" where
  "mapValues m = map snd m"

text \<open>\<open>control.results && control.results.length > 0\<close>\<close>

definition hasResults :: "raw_control \<Rightarrow> bool" where
  "hasResults rc = (case rc_results rc of None \<Rightarrow> False | Some rs \<Rightarrow> 0 < length rs)"

definition controlIdOf :: "raw_control \<Rightarrow> string" where
  "controlIdOf rc = orEmpty (rc_control_id rc)"

text \<open>The body of the \<open>for (const control of item.controls)\<close> loop.\<close>

definition addControl :: "raw_control \<Rightarrow> controlsMap \<Rightarrow> controlsMap" where
  "addControl rc m =
     (let controlId = controlIdOf rc in
      if controlId = [] then m
      else if \<not> mapHas m controlId \<or> hasResults rc
        then mapSet controlId (transformControl controlId rc) m
        else m)"

fun extractControls :: "item \<Rightarrow> controlsMap \<Rightarrow> controlsMap" where
  "extractControls (Item cs gs) m = fold extractControls gs (fold addControl cs m)"

definition allControls :: "item \<Rightarrow> control list" where
  "allControls result = mapValues (extractControls result [])"

text \<open>The controls of the tree in the order the traversal meets them.\<close>

fun occurrences :: "item \<Rightarrow> raw_control list" where
  "occurrences (Item cs gs) = cs @ concat (map occurrences gs)"

subsection \<open>Summary\<close>

record summary =
  total :: nat
  passed :: nat
  failed :: nat
  s_error :: nat
  skip :: nat
  permission_errors :: nat

definition countStatus :: "control_status \<Rightarrow> control list \<Rightarrow> nat" where
  "countStatus st cs = length (filter (\<lambda>c. status c = st) cs)"

definition summarize :: "control list \<Rightarrow> summary" where
  "summarize cs =
     \<lparr> total = length cs,
       passed = countStatus Pass cs,
       failed = countStatus Fail cs,
       s_error = countStatus Error cs,
       skip = countStatus Skip cs,
       permission_errors = length (filter permission_error cs) \<rparr>"

subsection \<open>Coverage verification\<close>

definition EXPECTED_CONTROL_RANGES :: "(string \<times> (string \<times> nat \<times> nat) list) list" where
  "EXPECTED_CONTROL_RANGES =
     [(''aws'',
        [(''HIPAA'', 130, 350),
         (''SOC2'', 150, 250),
         (''ISO27001'', 100, 200),
         (''CIS'', 100, 200),
         (''NIST'', 200, 400),
         (''PCI-DSS'', 100, 200),
         (''GDPR'', 80, 150),
         (''FedRAMP'', 200, 400)]),
      (''azure'',
        [(''HIPAA'', 120, 300),
         (''SOC2'', 120, 200),
         (''ISO27001'', 80, 150),
         (''CIS'', 80, 150),
         (''NIST'', 150, 300),
         (''PCI-DSS'', 80, 150)]),
      (''gcp'',
        [(''HIPAA'', 120, 300),
         (''SOC2'', 120, 200),
         (''ISO27001'', 80, 150),
         (''CIS'', 80, 150),
         (''NIST'', 150, 300)])]"

definition frameworkKeyOf :: "string \<Rightarrow> string option" where
  "frameworkKeyOf benchmarkName =
     (let benchmarkLower = toLowerCase benchmarkName in
      if includesStr benchmarkLower ''hipaa'' \<or> includesStr benchmarkLower ''hipaa_security'' then Some ''HIPAA''
      else if includesStr benchmarkLower ''soc_2'' \<or> includesStr benchmarkLower ''soc2'' then Some ''SOC2''
      else if includesStr benchmarkLower ''iso_27001'' \<or> includesStr benchmarkLower ''iso27001'' then Some ''ISO27001''
      else if includesStr benchmarkLower ''cis'' then Some ''CIS''
      else if includesStr benchmarkLower ''nist'' then Some ''NIST''
      else if includesStr benchmarkLower ''pci_dss'' \<or> includesStr benchmarkLower ''pci'' then Some ''PCI-DSS''
      else if includesStr benchmarkLower ''gdpr'' then Some ''GDPR''
      else if includesStr benchmarkLower ''fedramp'' then Some ''FedRAMP''
      else None)"

definition providerKeyOf :: "string \<Rightarrow> string option" where
  "providerKeyOf benchmarkName =
     (if includesStr benchmarkName ''aws_compliance'' then Some ''aws''
      else if includesStr benchmarkName ''azure_compliance'' then Some ''azure''
      else if includesStr benchmarkName ''gcp_compliance'' then Some ''gcp''
      else None)"

text \<open>
  \<open>frameworkKey && providerKey && EXPECTED_CONTROL_RANGES[providerKey]?.[frameworkKey]\<close>:
  the range as (min, max), or nothing.
\<close>

definition expectedRangeOf :: "string \<Rightarrow> (nat \<times> nat) option" where
  "expectedRangeOf benchmarkName =
     (case frameworkKeyOf benchmarkName of
        None \<Rightarrow> None
      | Some frameworkKey \<Rightarrow>
          (case providerKeyOf benchmarkName of
             None \<Rightarrow> None
           | Some providerKey \<Rightarrow>
               (case map_of EXPECTED_CONTROL_RANGES providerKey of
                  None \<Rightarrow> None
                | Some ranges \<Rightarrow> map_of ranges frameworkKey)))"

text \<open>
  A warning is a template literal of the source; the constructor names the template and
  carries the numbers interpolated into it.
\<close>

datatype warning =
    SignificantlyBelow nat nat nat
  | SlightlyBelow nat nat
  | ExceedsMaximum nat nat
  | PermissionErrors nat
  | HighErrorRate nat nat


text \<open>
  The thresholds \<open>min * 0.8\<close> and \<open>max * 1.2\<close> are computed in real arithmetic. The source
  computes them in binary floating point; on the ranges of the table every product is an
  integer that the floating-point product yields exactly (104, 120, 80, 160, 64, 96 and
  420, 300, 240, 480, 180, 360), so comparing an integer count against them agrees.
  The error-rate threshold \<open>totalControls * 0.2\<close> is taken in real arithmetic as well.
\<close>

definition countCheck :: "nat \<Rightarrow> (nat \<times> nat) option \<Rightarrow> bool \<times> warning list" where
  "countCheck totalControls expectedRange =
     (case expectedRange of
        None \<Rightarrow> (True, [])
      | Some (mn, mx) \<Rightarrow>
          (let minThreshold = real mn * 0.8;
               maxThreshold = real mx * 1.2
           in if real totalControls < minThreshold
                then (False, [SignificantlyBelow totalControls mn mx])
              else if totalControls < mn
                then (True, [SlightlyBelow totalControls mn])
              else if real totalControls > maxThreshold
                then (True, [ExceedsMaximum totalControls mx])
              else (True, [])))"

definition permissionCheck :: "nat \<Rightarrow> warning list" where
  "permissionCheck permissionErrors =
     (if permissionErrors > 0 then [PermissionErrors permissionErrors] else [])"

definition errorRateCheck :: "nat \<Rightarrow> nat \<Rightarrow> warning list" where
  "errorRateCheck errorControls totalControls =
     (if real errorControls > real totalControls * 0.2
        then [HighErrorRate errorControls totalControls] else [])"

record verification =
  control_count_valid :: bool
  expected_range :: "(nat \<times> nat) option"
  permission_issues_detected :: bool
  warnings :: "warning list option"

definition verify :: "string \<Rightarrow> summary \<Rightarrow> verification" where
  "verify benchmarkName sm =
     (let expectedRange = expectedRangeOf benchmarkName;
          (controlCountValid, w1) = countCheck (total sm) expectedRange;
          ws = w1 @ permissionCheck (permission_errors sm) @ errorRateCheck (s_error sm) (total sm)
      in \<lparr> control_count_valid = controlCountValid,
           expected_range = expectedRange,
           permission_issues_detected = (permission_errors sm > 0),
           warnings = (if length ws > 0 then Some ws else None) \<rparr>)"

record benchmark_result =
  benchmark :: string
  controls :: "control list"
  br_summary :: summary
  br_verification :: "verification option"

text \<open>
  The result built from a parsed engine output. When no control was found the source
  falls back to passing through an output that is already in the result format, or
  throws; those paths read fields outside the group tree and are \<open>None\<close> here.
\<close>

definition normalizeOutput :: "string \<Rightarrow> item \<Rightarrow> benchmark_result option" where
  "normalizeOutput benchmarkName result =
     (let cs = allControls result; sm = summarize cs in
      if length cs > 0
        then Some \<lparr> benchmark = benchmarkName,
                    controls = cs,
                    br_summary = sm,
                    br_verification = Some (verify benchmarkName sm) \<rparr>
        else None)"

subsection \<open>Framework to benchmark mapping\<close>

definition FRAMEWORK_TO_BENCHMARK :: "(string \<times> (string \<times> string) list) list" where
  "FRAMEWORK_TO_BENCHMARK =
     [(''aws'',
        [(''HIPAA'', ''aws_compliance.benchmark.hipaa_security_rule_2003''),
         (''SOC2'', ''aws_compliance.benchmark.soc_2''),
         (''ISO27001'', ''aws_compliance.benchmark.iso_27001''),
         (''CIS'', ''aws_compliance.benchmark.cis_v140''),
         (''NIST'', ''aws_compliance.benchmark.nist_800_53_rev_5''),
         (''PCI-DSS'', ''aws_compliance.benchmark.pci_dss_v321''),
         (''GDPR'', ''aws_compliance.benchmark.gdpr''),
         (''FedRAMP'', ''aws_compliance.benchmark.fedramp_moderate_rev_4'')]),
      (''azure'',
        [(''HIPAA'', ''azure_compliance.benchmark.hipaa''),
         (''SOC2'', ''azure_compliance.benchmark.soc_2''),
         (''ISO27001'', ''azure_compliance.benchmark.iso_27001''),
         (''CIS'', ''azure_compliance.benchmark.cis_v200''),
         (''NIST'', ''azure_compliance.benchmark.nist_800_53_rev_5''),
         (''PCI-DSS'', ''azure_compliance.benchmark.pci_dss_v321'')]),
      (''gcp'',
        [(''HIPAA'', ''gcp_compliance.benchmark.hipaa''),
         (''SOC2'', ''gcp_compliance.benchmark.soc_2''),
         (''ISO27001'', ''gcp_compliance.benchmark.iso_27001''),
         (''CIS'', ''gcp_compliance.benchmark.cis_v200''),
         (''NIST'', ''gcp_compliance.benchmark.nist_800_53_rev_5'')])]"

text \<open>Own properties of the table only; names inherited from the object prototype are not modelled.\<close>

definition getBenchmarkName :: "string \<Rightarrow> string \<Rightarrow> string option" where
  "getBenchmarkName framework provider =
     (case map_of FRAMEWORK_TO_BENCHMARK (toLowerCase provider) of
        None \<Rightarrow> None
      | Some providerMap \<Rightarrow> orNull (map_of providerMap framework))"


section \<open>The relational store\<close>

text \<open>
  Tables are lists of rows in insertion order. Row ids of findings and the
  \<open>created_at\<close>, \<open>updated_at\<close>, \<open>completed_at\<close> and \<open>archived_at\<close> columns, which the database
  fills in by default or from \<open>NOW()\<close>, are left out. Queries succeed unless they break the
  unique index of \<open>findings\<close> on (\<open>compliance_check_id\<close>, \<open>control_id\<close>).
\<close>

type_synonym status_history = "(string \<times> string \<times> string) list"

record client_row =
  cl_id :: string
  assigned_frameworks :: "string list"

record credential_row =
  cr_id :: string
  cr_client_id :: string
  provider :: string
  encrypted_credentials :: string
  is_active :: bool

record verification_data =
  vd_warnings :: "(string \<times> warning) list option"
  warning_count :: nat

record compliance_check =
  cc_id :: string
  cc_client_id :: string
  cc_frameworks :: "string list"
  cc_status :: string
  total_controls :: nat
  passed_controls :: nat
  failed_controls :: nat
  error_controls :: nat
  skip_controls :: nat
  started_at :: int
  powerpipe_output :: "verification_data option"

record finding =
  f_client_id :: string
  f_compliance_check_id :: string
  f_control_id :: string
  f_control_title :: string
  f_control_description :: "string option"
  f_framework :: string
  f_domain :: "string option"
  f_category :: "string option"
  f_scan_status :: control_status
  f_scan_reason :: "string option"
  f_scan_resources :: "raw_result list option"
  f_remediation_status :: string
  f_assigned_owner_id :: "string option"
  f_notes :: "string option"
  f_status_history :: status_history
  f_ai_business_context :: "string option"
  f_ai_remediation_guidance :: "string option"

record finding_history =
  snapshot :: finding
  archived_by_scan_id :: string

record control_metadata_row =
  m_client_id :: string
  m_control_id :: string
  m_remediation_status :: "string option"
  m_assigned_owner_id :: "string option"
  m_notes :: "string option"
  m_status_history :: "status_history option"
  m_ai_business_context :: "string option"
  m_ai_remediation_guidance :: "string option"

record db =
  clients :: "client_row list"
  credentials :: "credential_row list"
  compliance_checks :: "compliance_check list"
  findings :: "finding list"
  findings_history :: "finding_history list"
  control_metadata :: "control_metadata_row list"

definition findCheck :: "db \<Rightarrow> string \<Rightarrow> compliance_check option" where
  "findCheck d sid = find (\<lambda>r. cc_id r = sid) (compliance_checks d)"

definition statusOf :: "db \<Rightarrow> string \<Rightarrow> string option" where
  "statusOf d sid = map_option cc_status (findCheck d sid)"

text \<open>\<open>UPDATE compliance_checks SET status = 'failed', completed_at = NOW() WHERE id = $2\<close>\<close>

definition updateFailed :: "string \<Rightarrow> db \<Rightarrow> db" where
  "updateFailed sid d =
     d\<lparr>compliance_checks :=
         map (\<lambda>r. if cc_id r = sid then r\<lparr>cc_status := ''failed''\<rparr> else r) (compliance_checks d)\<rparr>"

text \<open>\<open>WHERE client_id = $2 AND framework = ANY($3::text[])\<close>\<close>

definition inScope :: "string \<Rightarrow> string list \<Rightarrow> finding \<Rightarrow> bool" where
  "inScope client_id frameworksToScan f =
     (f_client_id f = client_id \<and> f_framework f \<in> set frameworksToScan)"

text \<open>\<open>INSERT INTO findings_history (...) SELECT ..., $1 FROM findings WHERE ...\<close>\<close>

definition archiveFindings :: "string \<Rightarrow> string \<Rightarrow> string list \<Rightarrow> db \<Rightarrow> db" where
  "archiveFindings complianceCheckId client_id frameworksToScan d =
     d\<lparr>findings_history :=
         findings_history d @
         map (\<lambda>f. \<lparr>snapshot = f, archived_by_scan_id = complianceCheckId\<rparr>)
             (filter (inScope client_id frameworksToScan) (findings d))\<rparr>"

text \<open>\<open>DELETE FROM findings WHERE client_id = $1 AND framework = ANY($2::text[])\<close>\<close>

definition deleteFindings :: "string \<Rightarrow> string list \<Rightarrow> db \<Rightarrow> db" where
  "deleteFindings client_id frameworksToScan d =
     d\<lparr>findings := filter (\<lambda>f. \<not> inScope client_id frameworksToScan f) (findings d)\<rparr>"

text \<open>\<open>SELECT ... FROM control_metadata WHERE client_id = $1 AND control_id = $2\<close>, first row.\<close>

definition selectMetadata :: "db \<Rightarrow> string \<Rightarrow> string \<Rightarrow> control_metadata_row option" where
  "selectMetadata d client_id controlId =
     find (\<lambda>m. m_client_id m = client_id \<and> m_control_id m = controlId) (control_metadata d)"

text \<open>\<open>INSERT INTO findings\<close>: refused when the scan already holds a finding of the control.\<close>

definition insertFinding :: "finding \<Rightarrow> db \<Rightarrow> db option" where
  "insertFinding f d =
     (if list_ex (\<lambda>g. f_compliance_check_id g = f_compliance_check_id f \<and>
                       f_control_id g = f_control_id f) (findings d)
        then None
        else Some (d\<lparr>findings := findings d @ [f]\<rparr>))"


section \<open>Scan orchestrator\<close>

definition MAX_SCAN_DURATION_MS :: int where
  "MAX_SCAN_DURATION_MS = 30 * 60 * 1000"

subsection \<open>Metadata merge\<close>

definition extractDomainFromControl :: "string \<Rightarrow> string option" where
  "extractDomainFromControl controlId =
     (if includesStr controlId ''access'' \<or> includesStr controlId ''312'' then Some ''Access Control''
      else if includesStr controlId ''encrypt'' \<or> includesStr controlId ''164.312'' then Some ''Encryption''
      else if includesStr controlId ''audit'' \<or> includesStr controlId ''log'' then Some ''Audit & Logging''
      else if includesStr controlId ''backup'' \<or> includesStr controlId ''recovery'' then Some ''Backup & Recovery''
      else None)"

definition defaultRemediation :: "control_status \<Rightarrow> string" where
  "defaultRemediation st =
     (if st = Fail then ''open'' else if st = Pass then ''resolved'' else ''open'')"

definition remediationStatusFor :: "control_metadata_row option \<Rightarrow> control_status \<Rightarrow> string" where
  "remediationStatusFor metadata st =
     (case metadata of
        None \<Rightarrow> defaultRemediation st
      | Some m \<Rightarrow>
          (if truthy (m_remediation_status m)
             then (if st = Pass then ''resolved'' else orEmpty (m_remediation_status m))
             else defaultRemediation st))"

text \<open>\<open>metadata?.notes || null\<close> and its siblings.\<close>

definition metaText :: "(control_metadata_row \<Rightarrow> string option) \<Rightarrow> control_metadata_row option \<Rightarrow> string option" where
  "metaText sel metadata = (case metadata of None \<Rightarrow> None | Some m \<Rightarrow> orNull (sel m))"

text \<open>\<open>metadata?.status_history ? JSON.stringify(metadata.status_history) : '[]'\<close>\<close>

definition metaHistory :: "control_metadata_row option \<Rightarrow> status_history" where
  "metaHistory metadata =
     (case metadata of
        None \<Rightarrow> []
      | Some m \<Rightarrow> (case m_status_history m of None \<Rightarrow> [] | Some h \<Rightarrow> h))"

text \<open>The row of the \<open>INSERT INTO findings\<close> statement.\<close>

definition mergeFinding ::
  "string \<Rightarrow> string \<Rightarrow> string \<Rightarrow> control_metadata_row option \<Rightarrow> control \<Rightarrow> finding" where
  "mergeFinding complianceCheckId client_id framework metadata c =
     \<lparr> f_client_id = client_id,
       f_compliance_check_id = complianceCheckId,
       f_control_id = control_id c,
       f_control_title = title c,
       f_control_description = orNull (Some (description c)),
       f_framework = framework,
       f_domain = extractDomainFromControl (control_id c),
       f_category = None,
       f_scan_status = status c,
       f_scan_reason = orNull (c_reason c),
       f_scan_resources = resources c,
       f_remediation_status = remediationStatusFor metadata (status c),
       f_assigned_owner_id = metaText m_assigned_owner_id metadata,
       f_notes = metaText m_notes metadata,
       f_status_history = metaHistory metadata,
       f_ai_business_context = metaText m_ai_business_context metadata,
       f_ai_remediation_guidance = metaText m_ai_remediation_guidance metadata \<rparr>"

text \<open>
  The \<open>for (const control of result.controls)\<close> loop. A refused insert throws into the
  handler of the pair; the findings inserted before it stay.
\<close>

fun insertControls :: "string \<Rightarrow> string \<Rightarrow> string \<Rightarrow> control list \<Rightarrow> db \<Rightarrow> bool \<times> db" where
  "insertControls complianceCheckId client_id framework [] d = (True, d)"
| "insertControls complianceCheckId client_id framework (c # cs) d =
     (case insertFinding
             (mergeFinding complianceCheckId client_id framework
                (selectMetadata d client_id (control_id c)) c) d of
        None \<Rightarrow> (False, d)
      | Some d' \<Rightarrow> insertControls complianceCheckId client_id framework cs d')"

subsection \<open>The environment of a run\<close>

text \<open>
  What a run reads from outside the store: the clock (\<open>now k\<close> is what the \<open>k\<close>-th reading
  of \<open>Date.now()\<close> returns, counted from 0 within the run), \<open>decryptCredentials\<close> (\<open>None\<close>
  when it throws) and the benchmark engine (the outcome of the \<open>k\<close>-th invocation of
  \<open>runPowerpipeBenchmark\<close> with its three arguments: \<open>Inl\<close> the message of the error thrown).
\<close>

record env =
  now :: "nat \<Rightarrow> int"
  decryptCredentials :: "string \<Rightarrow> string option"
  runPowerpipeBenchmark :: "nat \<Rightarrow> string \<Rightarrow> string \<Rightarrow> string \<Rightarrow> string + benchmark_result"

text \<open>The local variables of \<open>executeScan\<close>; \<open>clock\<close> counts the readings of \<open>Date.now()\<close>.\<close>

record locals =
  totalControls :: nat
  passedControls :: nat
  failedControls :: nat
  errorControls :: nat
  skipControls :: nat
  verificationWarnings :: "(string \<times> warning) list"
  benchmarksRun :: nat
  benchmarksFailed :: nat
  benchmarkErrors :: "string list"
  clock :: nat

definition initialLocals :: "nat \<Rightarrow> locals" where
  "initialLocals k =
     \<lparr> totalControls = 0, passedControls = 0, failedControls = 0, errorControls = 0,
       skipControls = 0, verificationWarnings = [], benchmarksRun = 0, benchmarksFailed = 0,
       benchmarkErrors = [], clock = k \<rparr>"

subsection \<open>One (credential, framework) pair\<close>

text \<open>The \<open>catch\<close> of the pair: count the failure, keep the message, go on.\<close>

definition pairFailed :: "string \<Rightarrow> string \<Rightarrow> locals \<Rightarrow> locals" where
  "pairFailed benchmarkName errorMsg l =
     l\<lparr>benchmarksFailed := benchmarksFailed l + 1,
       benchmarkErrors := benchmarkErrors l @ [benchmarkName @ '': '' @ errorMsg]\<rparr>"

definition addTotals :: "string \<Rightarrow> benchmark_result \<Rightarrow> verification \<Rightarrow> locals \<Rightarrow> locals" where
  "addTotals benchmarkName result v l =
     l\<lparr>totalControls := totalControls l + length (controls result),
       passedControls := passedControls l + countStatus Pass (controls result),
       failedControls := failedControls l + countStatus Fail (controls result),
       errorControls := errorControls l + countStatus Error (controls result),
       skipControls := skipControls l + countStatus Skip (controls result),
       verificationWarnings :=
         verificationWarnings l @
         (case warnings v of None \<Rightarrow> [] | Some ws \<Rightarrow> map (\<lambda>w. (benchmarkName, w)) ws)\<rparr>"

text \<open>
  The \<open>try\<close> block of the pair. A result without \<open>verification\<close> throws a TypeError where
  the source reads \<open>result.verification.expected_range\<close>, before any finding is written.
\<close>

definition runPair ::
  "env \<Rightarrow> string \<Rightarrow> string \<Rightarrow> string \<Rightarrow> string \<Rightarrow> string \<Rightarrow> string \<Rightarrow> locals \<times> db \<Rightarrow> locals \<times> db" where
  "runPair e complianceCheckId client_id framework prov decryptedCreds benchmarkName st =
     (case st of (l, d) \<Rightarrow>
        (let l1 = l\<lparr>benchmarksRun := benchmarksRun l + 1\<rparr> in
         case runPowerpipeBenchmark e (benchmarksRun l) benchmarkName decryptedCreds prov of
           Inl errorMsg \<Rightarrow> (pairFailed benchmarkName errorMsg l1, d)
         | Inr result \<Rightarrow>
             (case br_verification result of
                None \<Rightarrow> (pairFailed benchmarkName ''TypeError'' l1, d)
              | Some v \<Rightarrow>
                  (case insertControls complianceCheckId client_id framework (controls result) d of
                     (False, d') \<Rightarrow> (pairFailed benchmarkName ''duplicate key'' l1, d')
                   | (True, d') \<Rightarrow> (addTotals benchmarkName result v l1, d')))))"

subsection \<open>The loops\<close>

text \<open>
  How a loop ends: it ran through (\<open>Next\<close>), it returned from \<open>executeScan\<close> on a timeout
  (\<open>Returned\<close>), or an exception left it for the outer \<open>catch\<close> (\<open>Thrown\<close>).
\<close>

datatype flow = Next | Returned | Thrown

definition tickClock :: "locals \<Rightarrow> locals" where
  "tickClock l = l\<lparr>clock := clock l + 1\<rparr>"

text \<open>\<open>for (const framework of frameworksToScan)\<close>\<close>

fun scanFrameworks ::
  "env \<Rightarrow> int \<Rightarrow> string \<Rightarrow> string \<Rightarrow> string \<Rightarrow> string \<Rightarrow> string list \<Rightarrow> locals \<times> db
     \<Rightarrow> flow \<times> locals \<times> db" where
  "scanFrameworks e scanStartTime complianceCheckId client_id prov decryptedCreds [] (l, d) =
     (Next, l, d)"
| "scanFrameworks e scanStartTime complianceCheckId client_id prov decryptedCreds (framework # fs) (l, d) =
     (let elapsed = now e (clock l) - scanStartTime;
          l1 = tickClock l
      in if elapsed > MAX_SCAN_DURATION_MS
           then (Returned, l1, updateFailed complianceCheckId d)
         else (case getBenchmarkName framework prov of
                 None \<Rightarrow>
                   scanFrameworks e scanStartTime complianceCheckId client_id prov decryptedCreds fs (l1, d)
               | Some benchmarkName \<Rightarrow>
                   scanFrameworks e scanStartTime complianceCheckId client_id prov decryptedCreds fs
                     (runPair e complianceCheckId client_id framework prov decryptedCreds
                        benchmarkName (l1, d))))"

text \<open>\<open>for (const credential of credentials)\<close>\<close>

fun scanCredentials ::
  "env \<Rightarrow> int \<Rightarrow> string \<Rightarrow> string \<Rightarrow> string list \<Rightarrow> credential_row list \<Rightarrow> locals \<times> db
     \<Rightarrow> flow \<times> locals \<times> db" where
  "scanCredentials e scanStartTime complianceCheckId client_id frameworksToScan [] (l, d) =
     (Next, l, d)"
| "scanCredentials e scanStartTime complianceCheckId client_id frameworksToScan (credential # cs) (l, d) =
     (let elapsed = now e (clock l) - scanStartTime;
          l1 = tickClock l
      in if elapsed > MAX_SCAN_DURATION_MS
           then (Returned, l1, updateFailed complianceCheckId d)
         else (case decryptCredentials e (encrypted_credentials credential) of
                 None \<Rightarrow> (Thrown, l1, d)
               | Some decryptedCreds \<Rightarrow>
                   (case scanFrameworks e scanStartTime complianceCheckId client_id
                           (provider credential) decryptedCreds frameworksToScan (l1, d) of
                      (Next, st) \<Rightarrow>
                        scanCredentials e scanStartTime complianceCheckId client_id frameworksToScan cs st
                    | (Returned, st) \<Rightarrow> (Returned, st)
                    | (Thrown, st) \<Rightarrow> (Thrown, st))))"

subsection \<open>Finalization\<close>

text \<open>The final \<open>UPDATE compliance_checks SET status = 'completed', ...\<close>\<close>

definition updateCompleted :: "string \<Rightarrow> locals \<Rightarrow> db \<Rightarrow> db" where
  "updateCompleted complianceCheckId l d =
     d\<lparr>compliance_checks :=
         map (\<lambda>r. if cc_id r = complianceCheckId
                   then r\<lparr>cc_status := ''completed'',
                          total_controls := totalControls l,
                          passed_controls := passedControls l,
                          failed_controls := failedControls l,
                          error_controls := errorControls l,
                          skip_controls := skipControls l,
                          powerpipe_output :=
                            Some \<lparr>vd_warnings =
                                    (if length (verificationWarnings l) > 0
                                       then Some (verificationWarnings l) else None),
                                  warning_count = length (verificationWarnings l)\<rparr>\<rparr>
                   else r)
             (compliance_checks d)\<rparr>"

text \<open>
  After the loops. In the two failing cases the source updates the status and throws,
  and the outer \<open>catch\<close> updates it again.
\<close>

definition finalizeScan :: "string \<Rightarrow> locals \<Rightarrow> db \<Rightarrow> db" where
  "finalizeScan complianceCheckId l d =
     (if benchmarksRun l > 0 \<and> benchmarksFailed l = benchmarksRun l
        then updateFailed complianceCheckId (updateFailed complianceCheckId d)
      else if benchmarksRun l = 0
        then updateFailed complianceCheckId (updateFailed complianceCheckId d)
      else updateCompleted complianceCheckId l d)"

subsection \<open>\<open>executeScan\<close>\<close>

text \<open>
  The check before the run: it reads the clock only when the scan's row is found.
  \<open>Some k\<close>: go on, \<open>k\<close> readings of the clock made so far; \<open>None\<close>: timed out.
\<close>

definition preCheck :: "env \<Rightarrow> string \<Rightarrow> db \<Rightarrow> nat option" where
  "preCheck e complianceCheckId d =
     (case findCheck d complianceCheckId of
        None \<Rightarrow> Some 1
      | Some row \<Rightarrow>
          (let elapsed = now e 1 - started_at row in
           if elapsed > MAX_SCAN_DURATION_MS then None else Some 2))"

text \<open>The loops over the store left by the archiving step.\<close>

definition scanLoop ::
  "env \<Rightarrow> nat \<Rightarrow> string \<Rightarrow> string \<Rightarrow> string list \<Rightarrow> credential_row list \<Rightarrow> db \<Rightarrow> flow \<times> locals \<times> db" where
  "scanLoop e k complianceCheckId client_id frameworksToScan creds d =
     scanCredentials e (now e 0) complianceCheckId client_id frameworksToScan creds
       (initialLocals k, d)"

definition afterLoop :: "string \<Rightarrow> flow \<times> locals \<times> db \<Rightarrow> db" where
  "afterLoop complianceCheckId r =
     (case r of
        (Next, l, d) \<Rightarrow> finalizeScan complianceCheckId l d
      | (Returned, l, d) \<Rightarrow> d
      | (Thrown, l, d) \<Rightarrow> updateFailed complianceCheckId d)"

definition executeScan ::
  "env \<Rightarrow> string \<Rightarrow> string \<Rightarrow> string list \<Rightarrow> credential_row list \<Rightarrow> db \<Rightarrow> db" where
  "executeScan e complianceCheckId client_id frameworksToScan creds d =
     (case preCheck e complianceCheckId d of
        None \<Rightarrow> updateFailed complianceCheckId d
      | Some k \<Rightarrow>
          afterLoop complianceCheckId
            (scanLoop e k complianceCheckId client_id frameworksToScan creds
               (deleteFindings client_id frameworksToScan
                  (archiveFindings complianceCheckId client_id frameworksToScan d))))"


section \<open>The scan endpoints\<close>

subsection \<open>\<open>POST /api/scans\<close>\<close>

text \<open>
  The body as \<open>createScanSchema.parse\<close> returns it (\<open>None\<close> when it throws a ZodError).
  The id of the new row and its \<open>started_at\<close> are the database's (\<open>uuid_generate_v4()\<close>,
  \<open>NOW()\<close>) and are parameters. On success the handler answers 201 and starts
  \<open>executeScan\<close> in the background on the job it returns here.
\<close>

record scan_request =
  rq_client_id :: string
  rq_frameworks :: "string list option"

record scan_job =
  job_id :: string
  job_client_id :: string
  job_frameworks :: "string list"
  job_credentials :: "credential_row list"

datatype response = Created string | NotFound string | BadRequest string

definition newCheck :: "string \<Rightarrow> int \<Rightarrow> string \<Rightarrow> string list \<Rightarrow> compliance_check" where
  "newCheck newId dbNow client_id frameworksToScan =
     \<lparr> cc_id = newId, cc_client_id = client_id, cc_frameworks = frameworksToScan,
       cc_status = ''in_progress'', total_controls = 0, passed_controls = 0,
       failed_controls = 0, error_controls = 0, skip_controls = 0,
       started_at = dbNow, powerpipe_output = None \<rparr>"

definition postScans ::
  "string \<Rightarrow> int \<Rightarrow> scan_request option \<Rightarrow> db \<Rightarrow> response \<times> db \<times> scan_job option" where
  "postScans newId dbNow body d =
     (case body of
        None \<Rightarrow> (BadRequest ''Validation error'', d, None)
      | Some data \<Rightarrow>
          (case find (\<lambda>c. cl_id c = rq_client_id data) (clients d) of
             None \<Rightarrow> (NotFound ''Client not found'', d, None)
           | Some client \<Rightarrow>
               (let frameworksToScan =
                      (case rq_frameworks data of
                         Some fs \<Rightarrow> fs
                       | None \<Rightarrow> assigned_frameworks client);
                    credentialRows =
                      filter (\<lambda>c. cr_client_id c = rq_client_id data \<and> is_active c) (credentials d)
                in if length frameworksToScan = 0
                     then (BadRequest ''No frameworks assigned to client'', d, None)
                   else if length credentialRows = 0
                     then (BadRequest ''No active credentials found for client'', d, None)
                   else (Created newId,
                         d\<lparr>compliance_checks :=
                             compliance_checks d @
                             [newCheck newId dbNow (rq_client_id data) frameworksToScan]\<rparr>,
                         Some \<lparr> job_id = newId, job_client_id = rq_client_id data,
                                job_frameworks = frameworksToScan,
                                job_credentials = credentialRows \<rparr>))))"

definition runJob :: "env \<Rightarrow> scan_job \<Rightarrow> db \<Rightarrow> db" where
  "runJob e job d =
     executeScan e (job_id job) (job_client_id job) (job_frameworks job) (job_credentials job) d"

subsection \<open>\<open>GET /api/scans\<close> and \<open>GET /api/scans/:id\<close>\<close>

text \<open>A row the endpoints mark as failed: still in progress and over the budget at time \<open>t\<close>.\<close>

definition timedOut :: "int \<Rightarrow> compliance_check \<Rightarrow> bool" where
  "timedOut t scan = (cc_status scan = ''in_progress'' \<and> t - started_at scan > MAX_SCAN_DURATION_MS)"

definition markRow :: "int \<Rightarrow> compliance_check \<Rightarrow> compliance_check" where
  "markRow t scan = (if timedOut t scan then scan\<lparr>cc_status := ''failed''\<rparr> else scan)"

definition selectScans :: "string option \<Rightarrow> string option \<Rightarrow> db \<Rightarrow> compliance_check list" where
  "selectScans client_id st d =
     filter (\<lambda>r. (case client_id of None \<Rightarrow> True | Some c \<Rightarrow> cc_client_id r = c) \<and>
                 (case st of None \<Rightarrow> True | Some s \<Rightarrow> cc_status r = s))
       (compliance_checks d)"

text \<open>The list endpoint: the rows of the answer (newest first) and the store after it.\<close>

definition getScans ::
  "int \<Rightarrow> string option \<Rightarrow> string option \<Rightarrow> db \<Rightarrow> compliance_check list \<times> db" where
  "getScans t client_id st d =
     (let rows = rev (selectScans client_id st d) in
      (map (markRow t) rows,
       fold (\<lambda>scan. updateFailed (cc_id scan)) (filter (timedOut t) rows) d))"

text \<open>The detail endpoint: the scan with its findings, or nothing (404), and the store after it.\<close>

definition getScan ::
  "int \<Rightarrow> string \<Rightarrow> db \<Rightarrow> (compliance_check \<times> finding list) option \<times> db" where
  "getScan t sid d =
     (case findCheck d sid of
        None \<Rightarrow> (None, d)
      | Some scan \<Rightarrow>
          (let d' = (if timedOut t scan then updateFailed sid d else d) in
           (Some (markRow t scan, filter (\<lambda>f. f_compliance_check_id f = sid) (findings d')), d')))"


section \<open>Notions used in the statements\<close>


text \<open>
  The occurrence of control id \<open>k\<close> that the traversal keeps: the last one with a non-empty
  results array, or the first occurrence when none has results.
\<close>

definition keptOccurrence :: "string \<Rightarrow> raw_control list \<Rightarrow> raw_control option" where
  "keptOccurrence k rcs =
     (let occ = filter (\<lambda>rc. controlIdOf rc = k) rcs;
          withResults = filter hasResults occ
      in if withResults \<noteq> [] then Some (last withResults)
         else (case occ of [] \<Rightarrow> None | rc # _ \<Rightarrow> Some rc))"

text \<open>
  The occurrence the specification names: the first one with a non-empty results array,
  or the first occurrence when none has results.
\<close>

definition claimedOccurrence :: "string \<Rightarrow> raw_control list \<Rightarrow> raw_control option" where
  "claimedOccurrence k rcs =
     (let occ = filter (\<lambda>rc. controlIdOf rc = k) rcs in
      case filter hasResults occ of
        rc # _ \<Rightarrow> Some rc
      | [] \<Rightarrow> (case occ of [] \<Rightarrow> None | rc # _ \<Rightarrow> Some rc))"

text \<open>Keys are distinct and every record sits under its own control id.\<close>

definition wellKeyed :: "controlsMap \<Rightarrow> bool" where
  "wellKeyed m = (distinct (map fst m) \<and> (\<forall>(k, v) \<in> set m. control_id v = k))"



subsection \<open>Example data\<close>

definition rcFirst :: raw_control where
  "rcFirst =
     \<lparr> rc_control_id = Some ''c1'', rc_title = Some ''first'', rc_description = None,
       rc_summary = Some \<lparr>alarm = Some 1, error = None, ok = Some 3\<rparr>,
       rc_results = Some [\<lparr>reason = Some ''bucket is public'', resource = Some ''arn:1''\<rparr>],
       rc_run_error = None \<rparr>"

definition rcSecond :: raw_control where
  "rcSecond =
     \<lparr> rc_control_id = Some ''c1'', rc_title = Some ''second'', rc_description = None,
       rc_summary = Some \<lparr>alarm = None, error = None, ok = Some 5\<rparr>,
       rc_results = Some [\<lparr>reason = Some ''ok'', resource = Some ''arn:2''\<rparr>],
       rc_run_error = None \<rparr>"

definition dupExample :: item where
  "dupExample = Item [] [Item [rcFirst] [], Item [rcSecond] []]"




subsection \<open>Notions about the store\<close>

text \<open>A finding written by scan \<open>sid\<close> for client \<open>cl\<close> and one of the frameworks \<open>fws\<close>.\<close>

definition ownRow :: "string \<Rightarrow> string \<Rightarrow> string list \<Rightarrow> finding \<Rightarrow> bool" where
  "ownRow sid cl fws f =
     (f_compliance_check_id f = sid \<and> f_client_id f = cl \<and> f_framework f \<in> set fws)"

definition checkIds :: "db \<Rightarrow> string list" where
  "checkIds d = map cc_id (compliance_checks d)"

text \<open>
  From \<open>d\<close> to \<open>d'\<close> the findings table only gained rows of scan \<open>sid\<close>, and the history,
  the metadata and the set of scans are the same.
\<close>

definition grows :: "string \<Rightarrow> string \<Rightarrow> string list \<Rightarrow> db \<Rightarrow> db \<Rightarrow> bool" where
  "grows sid cl fws d d' =
     ((\<exists>new. findings d' = findings d @ new \<and> list_all (ownRow sid cl fws) new)
      \<and> findings_history d' = findings_history d
      \<and> control_metadata d' = control_metadata d
      \<and> checkIds d' = checkIds d)"

text \<open>The store after the archiving step of \<open>executeScan\<close>.\<close>

definition afterArchive :: "string \<Rightarrow> string \<Rightarrow> string list \<Rightarrow> db \<Rightarrow> db" where
  "afterArchive sid cl fws d = deleteFindings cl fws (archiveFindings sid cl fws d)"

definition archived :: "string \<Rightarrow> finding \<Rightarrow> finding_history" where
  "archived sid f = \<lparr>snapshot = f, archived_by_scan_id = sid\<rparr>"

text \<open>The scan row that the final update leaves.\<close>

definition completedRow :: "locals \<Rightarrow> compliance_check \<Rightarrow> compliance_check" where
  "completedRow l r =
     r\<lparr>cc_status := ''completed'',
       total_controls := totalControls l,
       passed_controls := passedControls l,
       failed_controls := failedControls l,
       error_controls := errorControls l,
       skip_controls := skipControls l,
       powerpipe_output :=
         Some \<lparr>vd_warnings =
                 (if length (verificationWarnings l) > 0
                    then Some (verificationWarnings l) else None),
               warning_count = length (verificationWarnings l)\<rparr>\<rparr>"

subsection \<open>Example store, environment and results\<close>

definition ctlA :: control where
  "ctlA =
     \<lparr> control_id = ''s3_bucket_public'', title = ''S3 buckets are private'', description = [],
       status = Fail, c_reason = Some ''bucket is public'', resources = None,
       permission_error = False, error_type = None \<rparr>"

definition ctlB :: control where
  "ctlB =
     \<lparr> control_id = ''iam_mfa'', title = ''MFA is enabled'', description = [],
       status = Pass, c_reason = None, resources = None,
       permission_error = False, error_type = None \<rparr>"

definition resultAB :: benchmark_result where
  "resultAB =
     \<lparr> benchmark = ''aws_compliance.benchmark.hipaa_security_rule_2003'',
       controls = [ctlA, ctlB],
       br_summary = summarize [ctlA, ctlB],
       br_verification =
         Some \<lparr> control_count_valid = False, expected_range = Some (130, 350),
                permission_issues_detected = False,
                warnings = Some [SignificantlyBelow 2 130 350] \<rparr> \<rparr>"

definition credA :: credential_row where
  "credA =
     \<lparr> cr_id = ''k1'', cr_client_id = ''t1'', provider = ''aws'',
       encrypted_credentials = ''sealed'', is_active = True \<rparr>"


definition credC :: credential_row where
  "credC = credA\<lparr>cr_id := ''k3'', provider := ''azure''\<rparr>"

text \<open>
  An environment whose clock shows 0 for the first \<open>n\<close> readings and a time past the budget
  from then on; the credentials \<open>sealed\<close> decrypt and any other text does not; the engine
  answers \<open>resultAB\<close> for the HIPAA benchmark of AWS and fails for every other one.
\<close>

definition envAt :: "nat \<Rightarrow> env" where
  "envAt n =
     \<lparr> now = (\<lambda>k. if k < n then 0 else 1800001),
       decryptCredentials = (\<lambda>s. if s = ''sealed'' then Some ''plain'' else None),
       runPowerpipeBenchmark =
         (\<lambda>k b c p. if b = ''aws_compliance.benchmark.hipaa_security_rule_2003''
                     then Inr resultAB else Inl ''exit code 3'') \<rparr>"

definition metaA :: control_metadata_row where
  "metaA =
     \<lparr> m_client_id = ''t1'', m_control_id = ''s3_bucket_public'',
       m_remediation_status = Some ''in_progress'', m_assigned_owner_id = Some ''o1'',
       m_notes = Some ''follow up with infra team'',
       m_status_history = Some [(''in_progress'', ''a@example.org'', ''2024-01-01'')],
       m_ai_business_context = Some ''context'', m_ai_remediation_guidance = None \<rparr>"

definition db0 :: db where
  "db0 =
     \<lparr> clients = [\<lparr>cl_id = ''t1'', assigned_frameworks = [''HIPAA'']\<rparr>],
       credentials = [credA],
       compliance_checks = [newCheck ''s1'' 0 ''t1'' [''HIPAA'']],
       findings = [],
       findings_history = [],
       control_metadata = [metaA] \<rparr>"

text \<open>The store after scan \<open>s1\<close> ran, with a second scan \<open>s2\<close> submitted.\<close>

definition db1 :: db where
  "db1 =
     (let d = executeScan (envAt 100) ''s1'' ''t1'' [''HIPAA''] [credA] db0
      in d\<lparr>compliance_checks := compliance_checks d @ [newCheck ''s2'' 0 ''t1'' [''HIPAA'']]\<rparr>)"


text \<open>The loops of scan \<open>s1\<close> on the example store, run to their end within the budget.\<close>

definition loopDone :: "flow \<times> locals \<times> db" where
  "loopDone =
     scanLoop (envAt 100) 2 ''s1'' ''t1'' [''HIPAA''] [credA]
       (afterArchive ''s1'' ''t1'' [''HIPAA''] db0)"

definition requestT1 :: scan_request where
  "requestT1 = \<lparr>rq_client_id = ''t1'', rq_frameworks = None\<rparr>"

text \<open>A change of the store applied to the store a loop returns.\<close>

definition onStore :: "(db \<Rightarrow> db) \<Rightarrow> flow \<times> locals \<times> db \<Rightarrow> flow \<times> locals \<times> db" where
  "onStore g r = (case r of (fl, l, d) \<Rightarrow> (fl, l, g d))"


section \<open>Properties of the normalizer\<close>

subsection \<open>Strings\<close>






subsection \<open>Status derivation\<close>




subsection \<open>Permission classification\<close>






subsection \<open>Deduplication\<close>

lemma mapGet_mapSet: "mapGet (mapSet k v m) k' = (if k' = k then Some v else mapGet m k')"
  by (induction m) auto

lemma mapHas_mapGet: "mapHas m k = (mapGet m k \<noteq> None)"
  by (induction m) auto

lemma fold_extractControls:
  "(\<And>g m. g \<in> set gs \<Longrightarrow> extractControls g m = fold addControl (occurrences g) m)
   \<Longrightarrow> fold extractControls gs m = fold addControl (concat (map occurrences gs)) m"
  by (induction gs arbitrary: m) auto

lemma extractControls_occurrences:
  "extractControls t m = fold addControl (occurrences t) m"
proof (induction t arbitrary: m)
  case (Item cs gs)
  then show ?case by (simp add: fold_extractControls)
qed

lemma addControl_get:
  "k \<noteq> [] \<Longrightarrow>
   mapGet (addControl rc m) k =
     (if controlIdOf rc = k \<and> (mapGet m k = None \<or> hasResults rc)
        then Some (transformControl k rc) else mapGet m k)"
  by (auto simp: addControl_def Let_def mapGet_mapSet mapHas_mapGet)

lemma fold_addControl_get:
  "k \<noteq> [] \<Longrightarrow>
   mapGet (fold addControl rcs m) k =
     (let occ = filter (\<lambda>rc. controlIdOf rc = k) rcs;
          withResults = filter hasResults occ
      in if withResults \<noteq> [] then Some (transformControl k (last withResults))
         else (case mapGet m k of
                 Some v \<Rightarrow> Some v
               | None \<Rightarrow> (case occ of [] \<Rightarrow> None | rc # _ \<Rightarrow> Some (transformControl k rc))))"
proof (induction rcs arbitrary: m)
  case Nil
  then show ?case by (simp split: option.splits)
next
  case (Cons rc rcs)
  show ?case
    using Cons.prems Cons.IH[OF Cons.prems, of "addControl rc m"]
    by (auto simp: addControl_get Let_def split: option.splits list.splits)
qed

lemma set_mapSet: "set (mapSet k v m) \<subseteq> insert (k, v) (set m)"
  by (induction k v m rule: mapSet.induct) auto

lemma keys_mapSet: "set (map fst (mapSet k v m)) = insert k (set (map fst m))"
  by (induction k v m rule: mapSet.induct) auto

lemma distinct_mapSet: "distinct (map fst m) \<Longrightarrow> distinct (map fst (mapSet k v m))"
proof (induction k v m rule: mapSet.induct)
  case (1 k v)
  then show ?case by simp
next
  case (2 k v k' v' m)
  then show ?case using keys_mapSet[of k v m] by auto
qed

lemma wellKeyed_mapSet:
  assumes "wellKeyed m" "control_id v = k"
  shows "wellKeyed (mapSet k v m)"
proof -
  have d: "distinct (map fst (mapSet k v m))"
    using assms(1) by (simp add: wellKeyed_def distinct_mapSet)
  have "control_id v' = k'" if "(k', v') \<in> set (mapSet k v m)" for k' v'
  proof -
    from that set_mapSet[of k v m] have "(k', v') = (k, v) \<or> (k', v') \<in> set m" by blast
    then show ?thesis using assms by (auto simp: wellKeyed_def)
  qed
  with d show ?thesis unfolding wellKeyed_def by blast
qed

lemma wellKeyed_addControl: "wellKeyed m \<Longrightarrow> wellKeyed (addControl rc m)"
  by (auto simp: addControl_def Let_def transformControl_def intro!: wellKeyed_mapSet)

lemma wellKeyed_fold: "wellKeyed m \<Longrightarrow> wellKeyed (fold addControl rcs m)"
  by (induction rcs arbitrary: m) (auto simp: wellKeyed_addControl)

lemma wellKeyed_filter:
  "wellKeyed m \<Longrightarrow>
   filter (\<lambda>c. control_id c = k) (mapValues m) = (case mapGet m k of None \<Rightarrow> [] | Some v \<Rightarrow> [v])"
proof (induction m)
  case Nil
  then show ?case by (simp add: mapValues_def)
next
  case (Cons p m)
  obtain k' v where p: "p = (k', v)" by (cases p)
  from Cons.prems have wk: "wellKeyed m" and kv: "control_id v = k'" and nin: "k' \<notin> fst ` set m"
    by (auto simp: wellKeyed_def p)
  have none: "filter (\<lambda>c. control_id c = k') (map snd m) = []"
  proof -
    have "control_id c \<noteq> k'" if "c \<in> set (map snd m)" for c
    proof -
      from that obtain a where a: "(a, c) \<in> set m" by auto
      with wk have "control_id c = a" by (auto simp: wellKeyed_def)
      moreover from a have "a \<in> fst ` set m" by force
      ultimately show ?thesis using nin by auto
    qed
    then show ?thesis by (simp add: filter_empty_conv)
  qed
  show ?case
  proof (cases "k' = k")
    case True
    with none kv show ?thesis by (simp add: p mapValues_def)
  next
    case False
    with Cons.IH[OF wk] kv show ?thesis by (simp add: p mapValues_def)
  qed
qed

lemma wellKeyed_empty: "wellKeyed []"
  by (simp add: wellKeyed_def)

text \<open>
  C1 (amended). For every control id that is not empty, the normalizer emits exactly one
  record when the id occurs in the tree and none otherwise; the record is built from the
  last occurrence that has a non-empty results array, or from the first occurrence when
  no occurrence has results.
\<close>

theorem dedup_one_record:
  "k \<noteq> [] \<longrightarrow>
   filter (\<lambda>c. control_id c = k) (allControls t) =
     (case keptOccurrence k (occurrences t) of
        None \<Rightarrow> []
      | Some rc \<Rightarrow> [transformControl k rc])"
proof
  assume k: "k \<noteq> []"
  have wk: "wellKeyed (fold addControl (occurrences t) [])"
    by (rule wellKeyed_fold[OF wellKeyed_empty])
  have "mapGet (fold addControl (occurrences t) []) k =
          map_option (transformControl k) (keptOccurrence k (occurrences t))"
    using fold_addControl_get[OF k, of "occurrences t" "[]"]
    by (simp add: keptOccurrence_def Let_def split: list.splits)
  then show "filter (\<lambda>c. control_id c = k) (allControls t) =
     (case keptOccurrence k (occurrences t) of
        None \<Rightarrow> []
      | Some rc \<Rightarrow> [transformControl k rc])"
    using wellKeyed_filter[OF wk, of k]
    by (simp add: allControls_def extractControls_occurrences split: option.splits)
qed


theorem dedup_one_record_witness:
  "''c1'' \<noteq> []
   \<and> filter (\<lambda>c. control_id c = ''c1'') (allControls dupExample) = [transformControl ''c1'' rcSecond]"
proof -
  have k: "''c1'' \<noteq> []" by simp
  have "keptOccurrence ''c1'' (occurrences dupExample) = Some rcSecond"
    by (simp add: keptOccurrence_def dupExample_def rcFirst_def rcSecond_def controlIdOf_def
          orEmpty_def hasResults_def)
  with dedup_one_record[of "''c1''" dupExample] k show ?thesis by simp
qed

text \<open>
  C1 as stated fails: of two occurrences of \<open>c1\<close> that both carry results, the record
  emitted is the second one, where the statement names the first.
\<close>

theorem first_with_results_not_kept:
  "map title (allControls dupExample) = [''second'']
   \<and> map_option (title \<circ> transformControl ''c1'')
        (claimedOccurrence ''c1'' (occurrences dupExample)) = Some ''first''"
  by code_simp

subsection \<open>Coverage verdict\<close>














section \<open>Properties of the orchestrator\<close>

subsection \<open>What a run changes in the store\<close>

lemma grows_refl: "grows sid cl fws d d"
  by (simp add: grows_def)

lemma grows_trans: "grows sid cl fws d d' \<Longrightarrow> grows sid cl fws d' d'' \<Longrightarrow> grows sid cl fws d d''"
  by (auto simp: grows_def)

lemma ownRow_mono: "set fs \<subseteq> set fws \<Longrightarrow> ownRow sid cl fs f \<Longrightarrow> ownRow sid cl fws f"
  by (auto simp: ownRow_def)

lemma grows_mono: "set fs \<subseteq> set fws \<Longrightarrow> grows sid cl fs d d' \<Longrightarrow> grows sid cl fws d d'"
  by (auto simp: grows_def list_all_iff dest: ownRow_mono)

lemma checkIds_updateFailed: "checkIds (updateFailed sid d) = checkIds d"
  by (simp add: checkIds_def updateFailed_def comp_def if_distrib cong: if_cong)

lemma grows_updateFailed: "grows sid cl fws d (updateFailed x d)"
  by (simp add: grows_def checkIds_updateFailed) (simp add: updateFailed_def)

lemma grows_insertFinding:
  "insertFinding f d = Some d' \<Longrightarrow> ownRow sid cl fws f \<Longrightarrow> grows sid cl fws d d'"
  by (auto simp: insertFinding_def grows_def checkIds_def split: if_splits)

lemma ownRow_mergeFinding: "ownRow sid cl [fw] (mergeFinding sid cl fw md c)"
  by (simp add: ownRow_def mergeFinding_def)

lemma grows_insertControls:
  "insertControls sid cl fw cs d = (okay, d') \<Longrightarrow> grows sid cl [fw] d d'"
proof (induction cs arbitrary: d)
  case Nil
  then show ?case by (simp add: grows_refl)
next
  case (Cons c cs)
  show ?case
  proof (cases "insertFinding (mergeFinding sid cl fw (selectMetadata d cl (control_id c)) c) d")
    case None
    with Cons.prems show ?thesis by (simp add: grows_refl)
  next
    case (Some d1)
    with Cons.prems have "insertControls sid cl fw cs d1 = (okay, d')" by simp
    from Cons.IH[OF this] grows_insertFinding[OF Some ownRow_mergeFinding]
    show ?thesis by (blast intro: grows_trans)
  qed
qed

lemma grows_runPair:
  "runPair e sid cl fw prov dc b (l, d) = (l', d') \<Longrightarrow> grows sid cl [fw] d d'"
  by (auto simp: runPair_def Let_def grows_refl
           split: sum.splits option.splits prod.splits bool.splits dest: grows_insertControls)

lemma grows_scanFrameworks:
  "scanFrameworks e t0 sid cl prov dc fs (l, d) = (fl, l', d') \<Longrightarrow> grows sid cl fs d d'"
proof (induction fs arbitrary: l d)
  case Nil
  then show ?case by (simp add: grows_refl)
next
  case (Cons fw fs)
  show ?case
  proof (cases "now e (clock l) - t0 > MAX_SCAN_DURATION_MS")
    case True
    with Cons.prems show ?thesis by (auto simp: Let_def grows_updateFailed)
  next
    case False
    show ?thesis
    proof (cases "getBenchmarkName fw prov")
      case None
      with False Cons.prems
      have "scanFrameworks e t0 sid cl prov dc fs (tickClock l, d) = (fl, l', d')"
        by (simp add: Let_def)
      from Cons.IH[OF this] show ?thesis
        by (rule grows_mono[rotated]) auto
    next
      case (Some b)
      obtain l1 d1 where p: "runPair e sid cl fw prov dc b (tickClock l, d) = (l1, d1)"
        by (cases "runPair e sid cl fw prov dc b (tickClock l, d)")
      with Some False Cons.prems
      have "scanFrameworks e t0 sid cl prov dc fs (l1, d1) = (fl, l', d')"
        by (simp add: Let_def)
      from Cons.IH[OF this] have "grows sid cl (fw # fs) d1 d'"
        by (rule grows_mono[rotated]) auto
      moreover from grows_runPair[OF p] have "grows sid cl (fw # fs) d d1"
        by (rule grows_mono[rotated]) auto
      ultimately show ?thesis by (rule grows_trans[rotated])
    qed
  qed
qed

lemma grows_scanCredentials:
  "scanCredentials e t0 sid cl fws cs (l, d) = (fl, l', d') \<Longrightarrow> grows sid cl fws d d'"
proof (induction cs arbitrary: l d)
  case Nil
  then show ?case by (simp add: grows_refl)
next
  case (Cons c cs)
  show ?case
  proof (cases "now e (clock l) - t0 > MAX_SCAN_DURATION_MS")
    case True
    with Cons.prems show ?thesis by (auto simp: Let_def grows_updateFailed)
  next
    case False
    show ?thesis
    proof (cases "decryptCredentials e (encrypted_credentials c)")
      case None
      with False Cons.prems show ?thesis by (auto simp: Let_def grows_refl)
    next
      case (Some dc)
      obtain fl1 l1 d1 where
        p: "scanFrameworks e t0 sid cl (provider c) dc fws (tickClock l, d) = (fl1, l1, d1)"
        by (cases "scanFrameworks e t0 sid cl (provider c) dc fws (tickClock l, d)")
      have g1: "grows sid cl fws d d1" by (rule grows_scanFrameworks[OF p])
      show ?thesis
      proof (cases fl1)
        case Next
        with p Some False Cons.prems
        have "scanCredentials e t0 sid cl fws cs (l1, d1) = (fl, l', d')"
          by (simp add: Let_def)
        from g1 Cons.IH[OF this] show ?thesis by (rule grows_trans)
      next
        case Returned
        with p Some False Cons.prems have "d' = d1" by (simp add: Let_def)
        with g1 show ?thesis by simp
      next
        case Thrown
        with p Some False Cons.prems have "d' = d1" by (simp add: Let_def)
        with g1 show ?thesis by simp
      qed
    qed
  qed
qed


lemma find_map_update:
  assumes "\<And>r. cc_id (g r) = cc_id r"
  shows "find (\<lambda>r. cc_id r = sid) (map (\<lambda>r. if cc_id r = x then g r else r) rs) =
           map_option (\<lambda>r. if cc_id r = x then g r else r) (find (\<lambda>r. cc_id r = sid) rs)"
  using assms by (induction rs) auto

lemma findCheck_updateFailed:
  "findCheck (updateFailed x d) sid =
     map_option (\<lambda>r. if cc_id r = x then r\<lparr>cc_status := ''failed''\<rparr> else r) (findCheck d sid)"
  unfolding findCheck_def updateFailed_def
  by (simp add: find_map_update[where g = "\<lambda>r. r\<lparr>cc_status := ''failed''\<rparr>"])

lemma findCheck_updateCompleted:
  "findCheck (updateCompleted x l d) sid =
     map_option (\<lambda>r. if cc_id r = x then completedRow l r else r) (findCheck d sid)"
proof -
  have "updateCompleted x l d =
          d\<lparr>compliance_checks :=
              map (\<lambda>r. if cc_id r = x then completedRow l r else r) (compliance_checks d)\<rparr>"
    by (simp add: updateCompleted_def completedRow_def)
  then show ?thesis
    unfolding findCheck_def
    by (simp add: find_map_update[where g = "completedRow l"] completedRow_def)
qed

lemma findCheck_cc_id: "findCheck d sid = Some row \<Longrightarrow> cc_id row = sid"
  unfolding findCheck_def by (auto simp: find_Some_iff)

lemma findCheck_checkIds: "(findCheck d sid \<noteq> None) = (sid \<in> set (checkIds d))"
  unfolding findCheck_def checkIds_def by (auto simp: find_None_iff)

lemma statusOf_updateFailed:
  "sid \<in> set (checkIds d) \<Longrightarrow> statusOf (updateFailed sid d) sid = Some ''failed''"
proof -
  assume "sid \<in> set (checkIds d)"
  then obtain row where r: "findCheck d sid = Some row"
    using findCheck_checkIds[of d sid] by auto
  with findCheck_cc_id[OF r] show ?thesis
    by (simp add: statusOf_def findCheck_updateFailed)
qed

lemma findings_updateFailed [simp]:
  "findings (updateFailed x d) = findings d"
  "findings_history (updateFailed x d) = findings_history d"
  by (simp_all add: updateFailed_def)

lemma findings_updateCompleted [simp]:
  "findings (updateCompleted x l d) = findings d"
  "findings_history (updateCompleted x l d) = findings_history d"
  by (simp_all add: updateCompleted_def)

lemma checkIds_updateCompleted: "checkIds (updateCompleted x l d) = checkIds d"
  by (simp add: checkIds_def updateCompleted_def comp_def if_distrib cong: if_cong)

lemma findings_finalizeScan [simp]:
  "findings (finalizeScan sid l d) = findings d"
  "findings_history (finalizeScan sid l d) = findings_history d"
  by (simp_all add: finalizeScan_def)

lemma findings_afterLoop [simp]:
  "findings (afterLoop sid (fl, l, d)) = findings d"
  "findings_history (afterLoop sid (fl, l, d)) = findings_history d"
  by (cases fl; simp add: afterLoop_def)+

lemma afterArchive_simps:
  "findings (afterArchive sid cl fws d) = filter (\<lambda>f. \<not> inScope cl fws f) (findings d)"
  "findings_history (afterArchive sid cl fws d) =
     findings_history d @ map (archived sid) (filter (inScope cl fws) (findings d))"
  "compliance_checks (afterArchive sid cl fws d) = compliance_checks d"
  "control_metadata (afterArchive sid cl fws d) = control_metadata d"
  by (simp_all add: afterArchive_def deleteFindings_def archiveFindings_def archived_def)

lemma checkIds_afterArchive: "checkIds (afterArchive sid cl fws d) = checkIds d"
  by (simp add: checkIds_def afterArchive_simps)

lemma findCheck_afterArchive: "findCheck (afterArchive sid cl fws d) x = findCheck d x"
  by (simp add: findCheck_def afterArchive_simps)

lemma executeScan_run:
  "preCheck e sid d = Some k \<Longrightarrow>
   executeScan e sid cl fws creds d =
     afterLoop sid (scanLoop e k sid cl fws creds (afterArchive sid cl fws d))"
  by (simp add: executeScan_def afterArchive_def)

lemma executeScan_timedOut:
  "preCheck e sid d = None \<Longrightarrow> executeScan e sid cl fws creds d = updateFailed sid d"
  by (simp add: executeScan_def)

lemma grows_scanLoop:
  "scanLoop e k sid cl fws creds d = (fl, l, d') \<Longrightarrow> grows sid cl fws d d'"
  unfolding scanLoop_def by (rule grows_scanCredentials)


subsection \<open>Archiving\<close>





subsection \<open>Timeout\<close>

lemma scanFrameworks_append:
  "scanFrameworks e t0 sid cl prov dc (fs1 @ fs2) (l, d) =
     (case scanFrameworks e t0 sid cl prov dc fs1 (l, d) of
        (Next, st) \<Rightarrow> scanFrameworks e t0 sid cl prov dc fs2 st
      | (Returned, st) \<Rightarrow> (Returned, st)
      | (Thrown, st) \<Rightarrow> (Thrown, st))"
proof (induction fs1 arbitrary: l d)
  case Nil
  then show ?case by simp
next
  case (Cons fw fs1)
  show ?case
  proof (cases "getBenchmarkName fw prov")
    case None
    then show ?thesis using Cons.IH[of "tickClock l" d] by (simp add: Let_def)
  next
    case (Some b)
    obtain l1 d1 where p: "runPair e sid cl fw prov dc b (tickClock l, d) = (l1, d1)"
      by (cases "runPair e sid cl fw prov dc b (tickClock l, d)")
    then show ?thesis using Some Cons.IH[of l1 d1] by (simp add: Let_def)
  qed
qed

lemma scanCredentials_append:
  "scanCredentials e t0 sid cl fws (cs1 @ cs2) (l, d) =
     (case scanCredentials e t0 sid cl fws cs1 (l, d) of
        (Next, st) \<Rightarrow> scanCredentials e t0 sid cl fws cs2 st
      | (Returned, st) \<Rightarrow> (Returned, st)
      | (Thrown, st) \<Rightarrow> (Thrown, st))"
proof (induction cs1 arbitrary: l d)
  case Nil
  then show ?case by simp
next
  case (Cons c cs1)
  show ?case
  proof (cases "decryptCredentials e (encrypted_credentials c)")
    case None
    then show ?thesis by (simp add: Let_def)
  next
    case (Some dc)
    obtain fl1 l1 d1 where
      p: "scanFrameworks e t0 sid cl (provider c) dc fws (tickClock l, d) = (fl1, l1, d1)"
      by (cases "scanFrameworks e t0 sid cl (provider c) dc fws (tickClock l, d)")
    then show ?thesis using Some Cons.IH[of l1 d1] by (cases fl1) (simp_all add: Let_def)
  qed
qed

lemma frameworkCheckpoint:
  assumes "scanFrameworks e t0 sid cl prov dc fs1 (l, d) = (Next, l1, d1)"
    and "now e (clock l1) - t0 > MAX_SCAN_DURATION_MS"
  shows "scanFrameworks e t0 sid cl prov dc (fs1 @ fw # fs2) (l, d) =
           (Returned, tickClock l1, updateFailed sid d1)"
  using assms by (simp add: scanFrameworks_append Let_def)

lemma credentialCheckpoint:
  assumes "scanCredentials e t0 sid cl fws cs1 (l, d) = (Next, l1, d1)"
    and "now e (clock l1) - t0 > MAX_SCAN_DURATION_MS"
  shows "scanCredentials e t0 sid cl fws (cs1 @ c # cs2) (l, d) =
           (Returned, tickClock l1, updateFailed sid d1)"
  using assms by (simp add: scanCredentials_append Let_def)

lemma innerCheckpoint:
  assumes "scanCredentials e t0 sid cl (fs1 @ fw # fs2) cs1 (l, d) = (Next, l1, d1)"
    and "\<not> now e (clock l1) - t0 > MAX_SCAN_DURATION_MS"
    and "decryptCredentials e (encrypted_credentials c) = Some dc"
    and "scanFrameworks e t0 sid cl (provider c) dc fs1 (tickClock l1, d1) = (Next, l2, d2)"
    and "now e (clock l2) - t0 > MAX_SCAN_DURATION_MS"
  shows "scanCredentials e t0 sid cl (fs1 @ fw # fs2) (cs1 @ c # cs2) (l, d) =
           (Returned, tickClock l2, updateFailed sid d2)"
  using assms frameworkCheckpoint[OF assms(4,5), of fw fs2]
  by (simp add: scanCredentials_append Let_def)

lemma preCheck_None:
  "findCheck d sid = Some row \<Longrightarrow> now e 1 - started_at row > MAX_SCAN_DURATION_MS
   \<Longrightarrow> preCheck e sid d = None"
  by (simp add: preCheck_def Let_def)

text \<open>
  C4. Elapsed time is checked before the run, before each credential and before each
  framework of a credential, so before every pair. Wherever it exceeds the budget, the
  run returns at once with the scan marked failed: no further pair is attempted and the
  findings written so far stay in the store.
\<close>

theorem timeout_forces_failure:
  assumes row: "findCheck d sid = Some row"
  shows
    "(now e 1 - started_at row > MAX_SCAN_DURATION_MS \<longrightarrow>
        executeScan e sid cl fws creds d = updateFailed sid d
        \<and> statusOf (executeScan e sid cl fws creds d) sid = Some ''failed''
        \<and> findings (executeScan e sid cl fws creds d) = findings d
        \<and> findings_history (executeScan e sid cl fws creds d) = findings_history d)
     \<and> (preCheck e sid d = Some k
        \<and> scanLoop e k sid cl fws cs1 (afterArchive sid cl fws d) = (Next, l1, d1)
        \<and> now e (clock l1) - now e 0 > MAX_SCAN_DURATION_MS \<longrightarrow>
        scanLoop e k sid cl fws (cs1 @ c # cs2) (afterArchive sid cl fws d) =
          (Returned, tickClock l1, updateFailed sid d1)
        \<and> benchmarksRun (tickClock l1) = benchmarksRun l1
        \<and> executeScan e sid cl fws (cs1 @ c # cs2) d = updateFailed sid d1
        \<and> statusOf (executeScan e sid cl fws (cs1 @ c # cs2) d) sid = Some ''failed''
        \<and> findings (executeScan e sid cl fws (cs1 @ c # cs2) d) = findings d1)
     \<and> (preCheck e sid d = Some k
        \<and> fws = fs1 @ fw # fs2
        \<and> scanLoop e k sid cl fws cs1 (afterArchive sid cl fws d) = (Next, l1, d1)
        \<and> \<not> now e (clock l1) - now e 0 > MAX_SCAN_DURATION_MS
        \<and> decryptCredentials e (encrypted_credentials c) = Some dc
        \<and> scanFrameworks e (now e 0) sid cl (provider c) dc fs1 (tickClock l1, d1) = (Next, l2, d2)
        \<and> now e (clock l2) - now e 0 > MAX_SCAN_DURATION_MS \<longrightarrow>
        scanLoop e k sid cl fws (cs1 @ c # cs2) (afterArchive sid cl fws d) =
          (Returned, tickClock l2, updateFailed sid d2)
        \<and> benchmarksRun (tickClock l2) = benchmarksRun l2
        \<and> executeScan e sid cl fws (cs1 @ c # cs2) d = updateFailed sid d2
        \<and> statusOf (executeScan e sid cl fws (cs1 @ c # cs2) d) sid = Some ''failed''
        \<and> findings (executeScan e sid cl fws (cs1 @ c # cs2) d) = findings d2)"
proof -
  have ids: "sid \<in> set (checkIds d)"
    using row findCheck_checkIds[of d sid] by simp
  have A: "executeScan e sid cl fws creds d = updateFailed sid d
        \<and> statusOf (executeScan e sid cl fws creds d) sid = Some ''failed''
        \<and> findings (executeScan e sid cl fws creds d) = findings d
        \<and> findings_history (executeScan e sid cl fws creds d) = findings_history d"
    if "now e 1 - started_at row > MAX_SCAN_DURATION_MS"
    using executeScan_timedOut[OF preCheck_None[OF row that]] statusOf_updateFailed[OF ids]
    by simp
  have fin: "executeScan e sid cl fws (cs1 @ c # cs2) d = updateFailed sid dd
        \<and> statusOf (executeScan e sid cl fws (cs1 @ c # cs2) d) sid = Some ''failed''
        \<and> findings (executeScan e sid cl fws (cs1 @ c # cs2) d) = findings dd"
    if pre: "preCheck e sid d = Some k"
      and before: "grows sid cl fws (afterArchive sid cl fws d) dd"
      and loop: "scanLoop e k sid cl fws (cs1 @ c # cs2) (afterArchive sid cl fws d) =
          (Returned, ll, updateFailed sid dd)"
    for dd ll
  proof -
    have "sid \<in> set (checkIds dd)"
      using before ids by (simp add: grows_def checkIds_afterArchive)
    then show ?thesis
      using executeScan_run[OF pre, of cl fws "cs1 @ c # cs2"] loop statusOf_updateFailed
      by (simp add: afterLoop_def)
  qed
  have B: "scanLoop e k sid cl fws (cs1 @ c # cs2) (afterArchive sid cl fws d) =
          (Returned, tickClock l1, updateFailed sid d1)
        \<and> benchmarksRun (tickClock l1) = benchmarksRun l1
        \<and> executeScan e sid cl fws (cs1 @ c # cs2) d = updateFailed sid d1
        \<and> statusOf (executeScan e sid cl fws (cs1 @ c # cs2) d) sid = Some ''failed''
        \<and> findings (executeScan e sid cl fws (cs1 @ c # cs2) d) = findings d1"
    if h: "preCheck e sid d = Some k
        \<and> scanLoop e k sid cl fws cs1 (afterArchive sid cl fws d) = (Next, l1, d1)
        \<and> now e (clock l1) - now e 0 > MAX_SCAN_DURATION_MS"
  proof -
    from h have loop: "scanLoop e k sid cl fws (cs1 @ c # cs2) (afterArchive sid cl fws d) =
          (Returned, tickClock l1, updateFailed sid d1)"
      unfolding scanLoop_def by (auto intro: credentialCheckpoint)
    from h have "grows sid cl fws (afterArchive sid cl fws d) d1"
      by (auto dest: grows_scanLoop)
    moreover from h have "preCheck e sid d = Some k" by simp
    moreover have "benchmarksRun (tickClock l1) = benchmarksRun l1" by (simp add: tickClock_def)
    ultimately show ?thesis
      using fin[of d1 "tickClock l1"] loop by blast
  qed
  have C: "scanLoop e k sid cl fws (cs1 @ c # cs2) (afterArchive sid cl fws d) =
          (Returned, tickClock l2, updateFailed sid d2)
        \<and> benchmarksRun (tickClock l2) = benchmarksRun l2
        \<and> executeScan e sid cl fws (cs1 @ c # cs2) d = updateFailed sid d2
        \<and> statusOf (executeScan e sid cl fws (cs1 @ c # cs2) d) sid = Some ''failed''
        \<and> findings (executeScan e sid cl fws (cs1 @ c # cs2) d) = findings d2"
    if h: "preCheck e sid d = Some k
        \<and> fws = fs1 @ fw # fs2
        \<and> scanLoop e k sid cl fws cs1 (afterArchive sid cl fws d) = (Next, l1, d1)
        \<and> \<not> now e (clock l1) - now e 0 > MAX_SCAN_DURATION_MS
        \<and> decryptCredentials e (encrypted_credentials c) = Some dc
        \<and> scanFrameworks e (now e 0) sid cl (provider c) dc fs1 (tickClock l1, d1) = (Next, l2, d2)
        \<and> now e (clock l2) - now e 0 > MAX_SCAN_DURATION_MS"
  proof -
    from h have loop: "scanLoop e k sid cl fws (cs1 @ c # cs2) (afterArchive sid cl fws d) =
          (Returned, tickClock l2, updateFailed sid d2)"
      unfolding scanLoop_def by (auto intro: innerCheckpoint)
    from h have g1: "grows sid cl fws (afterArchive sid cl fws d) d1"
      by (auto dest: grows_scanLoop)
    from h have "grows sid cl fs1 d1 d2"
      by (auto dest: grows_scanFrameworks)
    then have "grows sid cl fws d1 d2"
      using h by (auto intro: grows_mono[rotated])
    with g1 have "grows sid cl fws (afterArchive sid cl fws d) d2"
      by (rule grows_trans)
    moreover from h have "preCheck e sid d = Some k" by simp
    moreover have "benchmarksRun (tickClock l2) = benchmarksRun l2" by (simp add: tickClock_def)
    ultimately show ?thesis
      using fin[of d2 "tickClock l2"] loop by blast
  qed
  from A B C show ?thesis by blast
qed

theorem timeout_forces_failure_witness:
  "statusOf (executeScan (envAt 1) ''s2'' ''t1'' [''HIPAA''] [credA] db1) ''s2'' = Some ''failed''
   \<and> findings (executeScan (envAt 1) ''s2'' ''t1'' [''HIPAA''] [credA] db1) = findings db1
   \<and> statusOf (executeScan (envAt 4) ''s1'' ''t1'' [''HIPAA''] ([credA] @ credC # []) db0) ''s1''
        = Some ''failed''
   \<and> length (findings (executeScan (envAt 4) ''s1'' ''t1'' [''HIPAA''] ([credA] @ credC # []) db0)) = 2
   \<and> statusOf (executeScan (envAt 4) ''s1'' ''t1'' ([''HIPAA''] @ ''SOC2'' # []) ([] @ credA # []) db0) ''s1''
        = Some ''failed''
   \<and> length (findings (executeScan (envAt 4) ''s1'' ''t1'' ([''HIPAA''] @ ''SOC2'' # [])
        ([] @ credA # []) db0)) = 2"
proof -
  let ?dA = "afterArchive ''s1'' ''t1'' [''HIPAA''] db0"
  let ?X = "scanLoop (envAt 4) 2 ''s1'' ''t1'' [''HIPAA''] [credA] ?dA"
  let ?fws = "[''HIPAA''] @ ''SOC2'' # []"
  let ?dC = "afterArchive ''s1'' ''t1'' ?fws db0"
  let ?Y = "scanFrameworks (envAt 4) (now (envAt 4) 0) ''s1'' ''t1'' (provider credA) ''plain''
              [''HIPAA''] (tickClock (initialLocals 2), ?dC)"
  have rowA: "findCheck db1 ''s2'' = Some (newCheck ''s2'' 0 ''t1'' [''HIPAA''])" by code_simp
  have lateA: "now (envAt 1) 1 - started_at (newCheck ''s2'' 0 ''t1'' [''HIPAA'']) > MAX_SCAN_DURATION_MS"
    by code_simp
  have rowB: "findCheck db0 ''s1'' = Some (newCheck ''s1'' 0 ''t1'' [''HIPAA''])" by code_simp
  have pre: "preCheck (envAt 4) ''s1'' db0 = Some 2" by code_simp
  have nX: "fst ?X = Next" by code_simp
  have X: "?X = (Next, fst (snd ?X), snd (snd ?X))"
    using nX by (metis prod.collapse)
  have lateB: "now (envAt 4) (clock (fst (snd ?X))) - now (envAt 4) 0 > MAX_SCAN_DURATION_MS"
    by code_simp
  have lenB: "length (findings (snd (snd ?X))) = 2" by code_simp
  have loopC: "scanLoop (envAt 4) 2 ''s1'' ''t1'' ?fws [] ?dC = (Next, initialLocals 2, ?dC)"
    by (simp add: scanLoop_def)
  have earlyC: "\<not> now (envAt 4) (clock (initialLocals 2)) - now (envAt 4) 0 > MAX_SCAN_DURATION_MS"
    by code_simp
  have dec: "decryptCredentials (envAt 4) (encrypted_credentials credA) = Some ''plain''"
    by code_simp
  have nY: "fst ?Y = Next" by code_simp
  have Y: "?Y = (Next, fst (snd ?Y), snd (snd ?Y))"
    using nY by (metis prod.collapse)
  have lateC: "now (envAt 4) (clock (fst (snd ?Y))) - now (envAt 4) 0 > MAX_SCAN_DURATION_MS"
    by code_simp
  have lenC: "length (findings (snd (snd ?Y))) = 2" by code_simp
  have a: "statusOf (executeScan (envAt 1) ''s2'' ''t1'' [''HIPAA''] [credA] db1) ''s2'' = Some ''failed''
      \<and> findings (executeScan (envAt 1) ''s2'' ''t1'' [''HIPAA''] [credA] db1) = findings db1"
    using timeout_forces_failure[OF rowA, where e = "envAt 1" and cl = "''t1''"
        and fws = "[''HIPAA'']" and creds = "[credA]"] lateA
    by blast
  have b: "statusOf (executeScan (envAt 4) ''s1'' ''t1'' [''HIPAA''] ([credA] @ credC # []) db0) ''s1''
        = Some ''failed''
      \<and> findings (executeScan (envAt 4) ''s1'' ''t1'' [''HIPAA''] ([credA] @ credC # []) db0)
        = findings (snd (snd ?X))"
    using timeout_forces_failure[OF rowB, where e = "envAt 4" and cl = "''t1''"
        and fws = "[''HIPAA'']" and k = 2 and ?cs1.0 = "[credA]" and c = credC and ?cs2.0 = "[]"
        and ?l1.0 = "fst (snd ?X)" and ?d1.0 = "snd (snd ?X)"] pre X lateB
    by blast
  have c: "statusOf (executeScan (envAt 4) ''s1'' ''t1'' ?fws ([] @ credA # []) db0) ''s1''
        = Some ''failed''
      \<and> findings (executeScan (envAt 4) ''s1'' ''t1'' ?fws ([] @ credA # []) db0)
        = findings (snd (snd ?Y))"
    using timeout_forces_failure[OF rowB, where e = "envAt 4" and cl = "''t1''"
        and fws = ?fws and k = 2 and ?cs1.0 = "[]" and c = credA and ?cs2.0 = "[]"
        and ?l1.0 = "initialLocals 2" and ?d1.0 = ?dC
        and ?fs1.0 = "[''HIPAA'']" and fw = "''SOC2''" and ?fs2.0 = "[]" and dc = "''plain''"
        and ?l2.0 = "fst (snd ?Y)" and ?d2.0 = "snd (snd ?Y)"] pre loopC earlyC dec Y lateC
    by blast
  from a b c lenB lenC show ?thesis by (simp only:) 
qed

subsection \<open>Outcome of a run\<close>














subsection \<open>Metadata merge\<close>





subsection \<open>Submission\<close>

text \<open>
  C9 (amended). The submission handler does not look at the scans table: its answer is the
  same whatever scans exist, and a request for an existing client with a non-empty
  framework set and an active credential creates a new scan in progress.
\<close>

theorem submission_not_exclusive:
  "fst (postScans newId t body (d\<lparr>compliance_checks := cs\<rparr>)) = fst (postScans newId t body d)
   \<and> (find (\<lambda>c. cl_id c = rq_client_id data) (clients d) = Some client
      \<and> frameworksToScan =
          (case rq_frameworks data of Some fs \<Rightarrow> fs | None \<Rightarrow> assigned_frameworks client)
      \<and> frameworksToScan \<noteq> []
      \<and> filter (\<lambda>c. cr_client_id c = rq_client_id data \<and> is_active c) (credentials d) \<noteq> []
      \<longrightarrow> fst (postScans newId t (Some data) d) = Created newId
          \<and> compliance_checks (fst (snd (postScans newId t (Some data) d))) =
              compliance_checks d @ [newCheck newId t (rq_client_id data) frameworksToScan])"
  by (auto simp: postScans_def Let_def split: option.splits)

theorem submission_not_exclusive_witness:
  "statusOf db0 ''s1'' = Some ''in_progress''
   \<and> fst (postScans ''s2'' 5 (Some requestT1) db0) = Created ''s2''
   \<and> compliance_checks (fst (snd (postScans ''s2'' 5 (Some requestT1) db0))) =
        compliance_checks db0 @ [newCheck ''s2'' 5 ''t1'' [''HIPAA'']]"
proof -
  have h: "find (\<lambda>c. cl_id c = rq_client_id requestT1) (clients db0) =
             Some \<lparr>cl_id = ''t1'', assigned_frameworks = [''HIPAA'']\<rparr>
      \<and> [''HIPAA''] =
          (case rq_frameworks requestT1 of
             Some fs \<Rightarrow> fs
           | None \<Rightarrow> assigned_frameworks \<lparr>cl_id = ''t1'', assigned_frameworks = [''HIPAA'']\<rparr>)
      \<and> [''HIPAA''] \<noteq> []
      \<and> filter (\<lambda>c. cr_client_id c = rq_client_id requestT1 \<and> is_active c) (credentials db0) \<noteq> []"
    by code_simp
  have s: "statusOf db0 ''s1'' = Some ''in_progress''" by code_simp
  have r: "rq_client_id requestT1 = ''t1''" by (simp add: requestT1_def)
  from submission_not_exclusive[where newId = "''s2''" and t = 5 and body = "Some requestT1"
         and d = db0 and cs = "compliance_checks db0" and data = requestT1
         and client = "\<lparr>cl_id = ''t1'', assigned_frameworks = [''HIPAA'']\<rparr>"
         and frameworksToScan = "[''HIPAA'']"] h s
  show ?thesis unfolding r by blast
qed

text \<open>
  C9 as stated fails: with a scan of tenant \<open>t1\<close> for HIPAA in progress, a second
  submission for the same tenant and framework is accepted and a second scan in progress
  is recorded.
\<close>

theorem second_scan_accepted_while_running:
  "map cc_client_id (compliance_checks db0) = [''t1'']
   \<and> map cc_status (compliance_checks db0) = [''in_progress'']
   \<and> map cc_frameworks (compliance_checks db0) = [[''HIPAA'']]
   \<and> fst (postScans ''s2'' 5 (Some requestT1) db0) = Created ''s2''
   \<and> map cc_client_id (compliance_checks (fst (snd (postScans ''s2'' 5 (Some requestT1) db0))))
        = [''t1'', ''t1'']
   \<and> map cc_status (compliance_checks (fst (snd (postScans ''s2'' 5 (Some requestT1) db0))))
        = [''in_progress'', ''in_progress'']
   \<and> map cc_frameworks (compliance_checks (fst (snd (postScans ''s2'' 5 (Some requestT1) db0))))
        = [[''HIPAA''], [''HIPAA'']]"
  by code_simp

subsection \<open>Terminal states\<close>

text \<open>
  The detail endpoint leaves a terminal status alone; the final update of a run does not.
  A status update of any scan commutes with the loops of a run, so it does not matter
  where during the run an endpoint's update lands.
\<close>

lemma finalizeScan_overwrites:
  assumes "findCheck d sid = Some row" "benchmarksFailed l < benchmarksRun l"
  shows "statusOf (finalizeScan sid l d) sid = Some ''completed''"
  using assms findCheck_cc_id[OF assms(1)]
  by (simp add: finalizeScan_def statusOf_def findCheck_updateCompleted completedRow_def)

lemma getScan_keeps_terminal:
  assumes "statusOf d sid = Some s" "s \<noteq> ''in_progress''"
  shows "statusOf (snd (getScan t x d)) sid = Some s"
proof (cases "findCheck d x")
  case None
  with assms show ?thesis by (simp add: getScan_def)
next
  case (Some scan)
  from assms(1) obtain row where row: "findCheck d sid = Some row" "cc_status row = s"
    by (auto simp: statusOf_def)
  show ?thesis
  proof (cases "timedOut t scan")
    case False
    with Some assms show ?thesis by (simp add: getScan_def Let_def)
  next
    case True
    then have "cc_status scan = ''in_progress''" by (simp add: timedOut_def)
    with row Some assms(2) have "x \<noteq> sid" by auto
    with findCheck_cc_id[OF row(1)] row True Some show ?thesis
      by (simp add: getScan_def Let_def statusOf_def findCheck_updateFailed)
  qed
qed

lemma updateFailed_commute:
  "updateFailed x (updateFailed y d) = updateFailed y (updateFailed x d)"
  by (simp add: updateFailed_def comp_def)

lemma insertFinding_updateFailed:
  "insertFinding f (updateFailed x d) = map_option (updateFailed x) (insertFinding f d)"
  by (simp add: insertFinding_def updateFailed_def)

lemma selectMetadata_updateFailed:
  "selectMetadata (updateFailed x d) cl k = selectMetadata d cl k"
  by (simp add: selectMetadata_def updateFailed_def)

lemma insertControls_updateFailed:
  "insertControls sid cl fw cs (updateFailed x d) =
     (case insertControls sid cl fw cs d of (okay, d') \<Rightarrow> (okay, updateFailed x d'))"
proof (induction cs arbitrary: d)
  case Nil
  then show ?case by simp
next
  case (Cons c cs)
  then show ?case
    by (simp add: insertFinding_updateFailed selectMetadata_updateFailed split: option.splits)
qed

lemma runPair_updateFailed:
  "runPair e sid cl fw prov dc b (l, updateFailed x d) =
     (case runPair e sid cl fw prov dc b (l, d) of (l', d') \<Rightarrow> (l', updateFailed x d'))"
  by (simp add: runPair_def Let_def insertControls_updateFailed
           split: sum.splits option.splits prod.splits bool.splits)

lemma scanFrameworks_updateFailed:
  "scanFrameworks e t0 sid cl prov dc fs (l, updateFailed x d) =
     onStore (updateFailed x) (scanFrameworks e t0 sid cl prov dc fs (l, d))"
proof (induction fs arbitrary: l d)
  case Nil
  then show ?case by (simp add: onStore_def)
next
  case (Cons fw fs)
  show ?case
  proof (cases "getBenchmarkName fw prov")
    case None
    then show ?thesis
      using Cons.IH[of "tickClock l" d]
      by (simp add: Let_def onStore_def updateFailed_commute[of x sid])
  next
    case (Some b)
    obtain l1 d1 where p: "runPair e sid cl fw prov dc b (tickClock l, d) = (l1, d1)"
      by (cases "runPair e sid cl fw prov dc b (tickClock l, d)")
    then show ?thesis
      using Some Cons.IH[of l1 d1]
      by (simp add: Let_def onStore_def runPair_updateFailed updateFailed_commute[of x sid])
  qed
qed

lemma scanCredentials_updateFailed:
  "scanCredentials e t0 sid cl fws cs (l, updateFailed x d) =
     onStore (updateFailed x) (scanCredentials e t0 sid cl fws cs (l, d))"
proof (induction cs arbitrary: l d)
  case Nil
  then show ?case by (simp add: onStore_def)
next
  case (Cons c cs)
  show ?case
  proof (cases "decryptCredentials e (encrypted_credentials c)")
    case None
    then show ?thesis
      by (simp add: Let_def onStore_def updateFailed_commute[of x sid])
  next
    case (Some dc)
    obtain fl1 l1 d1 where
      p: "scanFrameworks e t0 sid cl (provider c) dc fws (tickClock l, d) = (fl1, l1, d1)"
      by (cases "scanFrameworks e t0 sid cl (provider c) dc fws (tickClock l, d)")
    then show ?thesis
      using Some Cons.IH[of l1 d1]
      by (cases fl1)
         (simp_all add: Let_def onStore_def scanFrameworks_updateFailed
            updateFailed_commute[of x sid])
  qed
qed

lemma scanLoop_updateFailed:
  "scanLoop e k sid cl fws creds (updateFailed x d) =
     onStore (updateFailed x) (scanLoop e k sid cl fws creds d)"
  by (simp add: scanLoop_def scanCredentials_updateFailed)

text \<open>
  C10. The updates of \<open>executeScan\<close> do not look at the current status. When the detail
  endpoint marks a running scan failed after the budget has passed (here while the last
  pair is still with the engine, or after its findings are written) and the run then
  reaches its end, the final update sets the status to completed.
\<close>

theorem terminal_status_overwritten:
  "fst loopDone = Next
   \<and> statusOf (snd (snd loopDone)) ''s1'' = Some ''in_progress''
   \<and> statusOf (snd (getScan 1800001 ''s1'' (snd (snd loopDone)))) ''s1'' = Some ''failed''
   \<and> statusOf (afterLoop ''s1''
        (Next, fst (snd loopDone), snd (getScan 1800001 ''s1'' (snd (snd loopDone))))) ''s1''
        = Some ''completed''
   \<and> statusOf (snd (getScan 1800001 ''s1'' (afterArchive ''s1'' ''t1'' [''HIPAA''] db0))) ''s1''
        = Some ''failed''
   \<and> statusOf (afterLoop ''s1''
        (Next,
         runPair (envAt 100) ''s1'' ''t1'' ''HIPAA'' ''aws'' ''plain''
           ''aws_compliance.benchmark.hipaa_security_rule_2003''
           (tickClock (tickClock (initialLocals 2)),
            snd (getScan 1800001 ''s1'' (afterArchive ''s1'' ''t1'' [''HIPAA''] db0))))) ''s1''
        = Some ''completed''"
  by code_simp

end
